theory Spec2Isabelle
  imports Main
begin

section \<open>JavaScript values and the browser window\<close>

text \<open>
  The repository holds scripts that rustdoc generated. Each script either hands a table of
  trait implementors to the page (\<^verbatim>\<open>implementors/.../trait.*.js\<close>) or hands an
  index of a module's items to the sidebar (\<^verbatim>\<open>tweetr/util/sidebar-items.js\<close>).

  A link of an implementor line is kept as the \<^verbatim>\<open>class\<close> attribute, the
  \<^verbatim>\<open>title\<close> attribute (absent on links to primitive types) and the text of
  the \<^verbatim>\<open><a></a>\<close> element.
\<close>

datatype link = Link (cls: string) (title: "string option") (label: string)

text \<open>
  One string of an \<^verbatim>\<open>implementors["crate"]\<close> array is one rendered
  \<^verbatim>\<open>impl ... Trait for Type ...\<close> line. It is represented by the links
  it contains, in their order, split at the word \<^verbatim>\<open>for\<close> (every line has
  it once): the links before it (bounds, the trait and its parameters) and the links
  after it (the implementing type first, then the where clause). The
  \<^verbatim>\<open>href\<close> of a link and the text between the links (generic parameters,
  lifetimes, punctuation) are left out: no property below depends on them.
\<close>

datatype impl_line = Impl (before_for: "link list") (after_for: "link list")

datatype jsval =
    JUndefined
  | JNull
  | JBool bool
  | JNum int
  | JNaN
  | JStr string
  | JHtml impl_line
  | JArr "jsval list"
  | JObj "(string \<times> jsval) list"
  | JFun string

text \<open>
  The values of the language as far as the scripts meet them. \<^const>\<open>JNum\<close> stands
  for the finite numbers (of a number only whether it is zero matters), \<^const>\<open>JNaN\<close>
  for NaN, \<^const>\<open>JHtml\<close> for the string of an implementor line, \<^const>\<open>JFun\<close>
  for a function of the page, known by a name only. An object is the list of its
  properties in insertion order.

  ToBoolean of the language: \<^verbatim>\<open>undefined\<close>, \<^verbatim>\<open>null\<close>,
  \<^verbatim>\<open>false\<close>, \<^verbatim>\<open>0\<close>, \<^verbatim>\<open>NaN\<close> and the
  empty string are falsy, everything else is truthy. An implementor line is a string that
  starts with \<^verbatim>\<open>impl\<close>, hence truthy.
\<close>

fun truthy :: "jsval \<Rightarrow> bool" where
  "truthy JUndefined = False"
| "truthy JNull = False"
| "truthy (JBool b) = b"
| "truthy (JNum n) = (n \<noteq> 0)"
| "truthy JNaN = False"
| "truthy (JStr s) = (s \<noteq> [])"
| "truthy (JHtml l) = True"
| "truthy (JArr xs) = True"
| "truthy (JObj ps) = True"
| "truthy (JFun f) = True"

fun callable :: "jsval \<Rightarrow> bool" where
  "callable (JFun f) = True"
| "callable v = False"

text \<open>
  The window is the global object: a property that was never set reads as
  \<^verbatim>\<open>undefined\<close>.
\<close>

type_synonym window = "string \<rightharpoonup> jsval"

definition get_prop :: "window \<Rightarrow> string \<Rightarrow> jsval" where
  "get_prop w k = (case w k of None \<Rightarrow> JUndefined | Some v \<Rightarrow> v)"

text \<open>
  \<^verbatim>\<open>obj[k] = v\<close> on an object literal: an existing key keeps its place, a new
  key goes last.
\<close>

fun obj_set :: "string \<Rightarrow> jsval \<Rightarrow> (string \<times> jsval) list \<Rightarrow> (string \<times> jsval) list" where
  "obj_set k v [] = [(k, v)]"
| "obj_set k v ((k', v') # ps) =
     (if k = k' then (k, v) # ps else (k', v') # obj_set k v ps)"

fun obj_keys :: "jsval \<Rightarrow> string list" where
  "obj_keys (JObj ps) = map fst ps"
| "obj_keys v = []"

text \<open>
  \<^verbatim>\<open>obj[k]\<close> at an own property of an object literal. The properties that
  a literal inherits from \<^verbatim>\<open>Object.prototype\<close> (\<^verbatim>\<open>constructor\<close>,
  \<^verbatim>\<open>toString\<close>, ...) are not modelled, so the function stands for the read of
  the language at own keys only; which keys are own is told by \<^const>\<open>obj_keys\<close>.
\<close>

fun obj_get :: "jsval \<Rightarrow> string \<Rightarrow> jsval" where
  "obj_get (JObj ps) k = (case map_of ps k of None \<Rightarrow> JUndefined | Some v \<Rightarrow> v)"
| "obj_get v k = JUndefined"

section \<open>What a script does\<close>

datatype error = TypeError | ReferenceError

datatype action =
    Call jsval "jsval list"
  | Assign string jsval
  | Throw error

text \<open>
  The tail of every implementor script:
  \<^verbatim>\<open>
  if (window.register_implementors) {
      window.register_implementors(implementors);
  } else {
      window.pending_implementors = implementors;
  }
  \<close>
  The test is a truthiness test. Calling a truthy value that is not a function throws a
  TypeError. What the called function does is the page's business and is not part of the
  script: the call is recorded with its callee and argument.
\<close>

definition register :: "jsval \<Rightarrow> window \<Rightarrow> action list" where
  "register implementors w =
     (let f = get_prop w ''register_implementors'' in
      if truthy f then
        (if callable f then [Call f [implementors]] else [Throw TypeError])
      else [Assign ''pending_implementors'' implementors])"

text \<open>
  The head of every implementor script:
  \<^verbatim>\<open>var implementors = {}; implementors["a"] = [...]; implementors["b"] = [...];\<close>
\<close>

definition implementors_table :: "(string \<times> impl_line list) list \<Rightarrow> jsval" where
  "implementors_table assignments =
     JObj (foldl (\<lambda>obj (crate, lines). obj_set crate (JArr (map JHtml lines)) obj) [] assignments)"

text \<open>
  A script is either an implementor script, given by its assignments in source order, or
  the sidebar script \<^verbatim>\<open>initSidebarItems({...});\<close>, given by its argument.
\<close>

datatype script =
    ImplementorsScript "(string \<times> impl_line list) list"
  | SidebarScript jsval

text \<open>
  \<^verbatim>\<open>initSidebarItems\<close> is a bare identifier: with no such global the script
  throws a ReferenceError, with a global that is not a function a TypeError.
\<close>

fun run :: "script \<Rightarrow> window \<Rightarrow> action list" where
  "run (ImplementorsScript assignments) w = register (implementors_table assignments) w"
| "run (SidebarScript items) w =
     (case w ''initSidebarItems'' of
        None \<Rightarrow> [Throw ReferenceError]
      | Some f \<Rightarrow> if callable f then [Call f [items]] else [Throw TypeError])"

fun apply_action :: "action \<Rightarrow> window \<Rightarrow> window" where
  "apply_action (Assign k v) w = w(k \<mapsto> v)"
| "apply_action (Call f args) w = w"
| "apply_action (Throw e) w = w"

definition run_script :: "script \<Rightarrow> window \<Rightarrow> window" where
  "run_script s w = fold apply_action (run s w) w"

text \<open>The window properties a script reads.\<close>

fun reads :: "script \<Rightarrow> string list" where
  "reads (ImplementorsScript assignments) = [''register_implementors'']"
| "reads (SidebarScript items) = [''initSidebarItems'']"

section \<open>The sidebar index of \<^verbatim>\<open>tweetr::util\<close>\<close>

definition sidebar_items :: jsval where
  \<open>sidebar_items = JObj
     [(''fn'', JArr
        [JArr [JStr ''mul_str'', JStr ''Create a string consisting of `n` repetitions of `what`.''],
         JArr [JStr ''parse_relative_time'', JStr ''Parse a relative datetime into a `Duration`.''],
         JArr [JStr ''prompt_any_len'', JStr ''Ask the user to input a string of any length after printing a prompt prompting.''],
         JArr [JStr ''prompt_exact_len'', JStr ''Ask the user to input a string of the exact length of `desired_len`, (re)prompting as necessary.''],
         JArr [JStr ''prompt_multiline'', JStr ''Ask the user to input a multiline string, (re)prompting as necessary.''],
         JArr [JStr ''prompt_nonzero_len'', JStr ''Ask the user to input a string of non-zero length, (re)prompting as necessary.''],
         JArr [JStr ''span_r'', JStr ''Runs a closure, returning the duration of time it took to run the closure and the closure\'s return value.'']]),
      (''static'', JArr
        [JArr [JStr ''TWEET_DATETIME_FORMAT'', JStr ''The datetime format returned by Twitter when posting.'']])]\<close>

text \<open>An item of the index is a pair \<^verbatim>\<open>[name, description]\<close>.\<close>

fun item_of :: "jsval \<Rightarrow> (string \<times> string) option" where
  "item_of (JArr [JStr name, JStr description]) = Some (name, description)"
| "item_of v = None"

definition items :: "jsval \<Rightarrow> string \<Rightarrow> (string \<times> string) list" where
  "items index kind =
     (case obj_get index kind of JArr xs \<Rightarrow> List.map_filter item_of xs | _ \<Rightarrow> [])"

section \<open>The implementor tables\<close>

text \<open>
  The file \<^verbatim>\<open>implementors/core/iter/iterator/trait.Iterator.js\<close> holds two
  scripts, one after the other, each a function expression called at once. The first
  lists the implementors of \<^verbatim>\<open>core::iter::iterator::Iterator\<close>, in
  fourteen assignments (two of them of the empty array).
\<close>

definition Iterator_implementors :: "(string \<times> impl_line list) list" where
  \<open>Iterator_implementors =
   [(''vec_map'',
      [Impl [Link ''trait'' (Some ''core::iter::iterator::Iterator'') ''Iterator'']
          [Link ''struct'' (Some ''vec_map::Iter'') ''Iter''],
       Impl [Link ''trait'' (Some ''core::iter::iterator::Iterator'') ''Iterator'']
          [Link ''struct'' (Some ''vec_map::IterMut'') ''IterMut''],
       Impl [Link ''trait'' (Some ''core::iter::iterator::Iterator'') ''Iterator'']
          [Link ''struct'' (Some ''vec_map::Drain'') ''Drain''],
       Impl [Link ''trait'' (Some ''core::iter::iterator::Iterator'') ''Iterator'']
          [Link ''struct'' (Some ''vec_map::Keys'') ''Keys''],
       Impl [Link ''trait'' (Some ''core::iter::iterator::Iterator'') ''Iterator'']
          [Link ''struct'' (Some ''vec_map::Values'') ''Values''],
       Impl [Link ''trait'' (Some ''core::iter::iterator::Iterator'') ''Iterator'']
          [Link ''struct'' (Some ''vec_map::IntoIter'') ''IntoIter'']]),
    (''lazy_static'', []),
    (''unicode_normalization'',
      [Impl [Link ''trait'' (Some ''core::iter::iterator::Iterator'') ''Iterator'', Link ''primitive'' None ''char'', Link ''trait'' (Some ''core::iter::iterator::Iterator'') ''Iterator'']
          [Link ''struct'' (Some ''unicode_normalization::Decompositions'') ''Decompositions''],
       Impl [Link ''trait'' (Some ''core::iter::iterator::Iterator'') ''Iterator'', Link ''primitive'' None ''char'', Link ''trait'' (Some ''core::iter::iterator::Iterator'') ''Iterator'']
          [Link ''struct'' (Some ''unicode_normalization::Recompositions'') ''Recompositions'']]),
    (''num_iter'',
      [Impl [Link ''trait'' (Some ''core::iter::iterator::Iterator'') ''Iterator'']
          [Link ''struct'' (Some ''num_iter::Range'') ''Range'', Link ''trait'' (Some ''core::ops::Add'') ''Add'', Link ''trait'' (Some ''core::cmp::PartialOrd'') ''PartialOrd'', Link ''trait'' (Some ''core::clone::Clone'') ''Clone'', Link ''trait'' (Some ''num_traits::cast::ToPrimitive'') ''ToPrimitive''],
       Impl [Link ''trait'' (Some ''core::iter::iterator::Iterator'') ''Iterator'']
          [Link ''struct'' (Some ''num_iter::RangeInclusive'') ''RangeInclusive'', Link ''trait'' (Some ''core::ops::Add'') ''Add'', Link ''trait'' (Some ''core::cmp::PartialOrd'') ''PartialOrd'', Link ''trait'' (Some ''core::clone::Clone'') ''Clone'', Link ''trait'' (Some ''num_traits::cast::ToPrimitive'') ''ToPrimitive''],
       Impl [Link ''trait'' (Some ''core::iter::iterator::Iterator'') ''Iterator'']
          [Link ''struct'' (Some ''num_iter::RangeStep'') ''RangeStep'', Link ''trait'' (Some ''num_traits::ops::checked::CheckedAdd'') ''CheckedAdd'', Link ''trait'' (Some ''core::cmp::PartialOrd'') ''PartialOrd'', Link ''trait'' (Some ''core::clone::Clone'') ''Clone''],
       Impl [Link ''trait'' (Some ''core::iter::iterator::Iterator'') ''Iterator'']
          [Link ''struct'' (Some ''num_iter::RangeStepInclusive'') ''RangeStepInclusive'', Link ''trait'' (Some ''num_traits::ops::checked::CheckedAdd'') ''CheckedAdd'', Link ''trait'' (Some ''core::cmp::PartialOrd'') ''PartialOrd'', Link ''trait'' (Some ''core::clone::Clone'') ''Clone'', Link ''trait'' (Some ''core::cmp::PartialEq'') ''PartialEq'']]),
    (''libc'', []),
    (''rustc_serialize'',
      [Impl [Link ''trait'' (Some ''core::iter::iterator::Iterator'') ''Iterator'', Link ''primitive'' None ''char'', Link ''trait'' (Some ''core::iter::iterator::Iterator'') ''Iterator'']
          [Link ''struct'' (Some ''rustc_serialize::json::Parser'') ''Parser'']]),
    (''solicit'',
      [Impl [Link ''trait'' (Some ''core::iter::iterator::Iterator'') ''Iterator'']
          [Link ''struct'' (Some ''solicit::http::session::StreamIter'') ''StreamIter'', Link ''trait'' (Some ''solicit::http::session::Stream'') ''Stream'']]),
    (''url'',
      [Impl [Link ''trait'' (Some ''core::iter::iterator::Iterator'') ''Iterator'']
          [Link ''struct'' (Some ''url::SocketAddrs'') ''SocketAddrs''],
       Impl [Link ''trait'' (Some ''core::iter::iterator::Iterator'') ''Iterator'']
          [Link ''struct'' (Some ''url::form_urlencoded::Parse'') ''Parse''],
       Impl [Link ''trait'' (Some ''core::iter::iterator::Iterator'') ''Iterator'']
          [Link ''struct'' (Some ''url::form_urlencoded::ParseIntoOwned'') ''ParseIntoOwned''],
       Impl [Link ''trait'' (Some ''core::iter::iterator::Iterator'') ''Iterator'']
          [Link ''struct'' (Some ''url::form_urlencoded::ByteSerialize'') ''ByteSerialize''],
       Impl [Link ''trait'' (Some ''url::percent_encoding::EncodeSet'') ''EncodeSet'', Link ''trait'' (Some ''core::iter::iterator::Iterator'') ''Iterator'']
          [Link ''struct'' (Some ''url::percent_encoding::PercentEncode'') ''PercentEncode''],
       Impl [Link ''trait'' (Some ''core::iter::iterator::Iterator'') ''Iterator'']
          [Link ''struct'' (Some ''url::percent_encoding::PercentDecode'') ''PercentDecode'']]),
    (''rand'',
      [Impl [Link ''trait'' (Some ''rand::Rand'') ''Rand'', Link ''trait'' (Some ''rand::Rng'') ''Rng'', Link ''trait'' (Some ''core::iter::iterator::Iterator'') ''Iterator'']
          [Link ''struct'' (Some ''rand::Generator'') ''Generator''],
       Impl [Link ''trait'' (Some ''rand::Rng'') ''Rng'', Link ''trait'' (Some ''core::iter::iterator::Iterator'') ''Iterator'']
          [Link ''struct'' (Some ''rand::AsciiGenerator'') ''AsciiGenerator'']]),
    (''openssl'',
      [Impl [Link ''trait'' (Some ''core::iter::iterator::Iterator'') ''Iterator'']
          [Link ''struct'' (Some ''std::ascii::EscapeDefault'') ''EscapeDefault''],
       Impl [Link ''trait'' (Some ''core::iter::iterator::Iterator'') ''Iterator'']
          [Link ''struct'' (Some ''std::collections::hash::map::Iter'') ''Iter''],
       Impl [Link ''trait'' (Some ''core::iter::iterator::Iterator'') ''Iterator'']
          [Link ''struct'' (Some ''std::collections::hash::map::IterMut'') ''IterMut''],
       Impl [Link ''trait'' (Some ''core::iter::iterator::Iterator'') ''Iterator'']
          [Link ''struct'' (Some ''std::collections::hash::map::IntoIter'') ''IntoIter''],
       Impl [Link ''trait'' (Some ''core::iter::iterator::Iterator'') ''Iterator'']
          [Link ''struct'' (Some ''std::collections::hash::map::Keys'') ''Keys''],
       Impl [Link ''trait'' (Some ''core::iter::iterator::Iterator'') ''Iterator'']
          [Link ''struct'' (Some ''std::collections::hash::map::Values'') ''Values''],
       Impl [Link ''trait'' (Some ''core::iter::iterator::Iterator'') ''Iterator'']
          [Link ''struct'' (Some ''std::collections::hash::map::ValuesMut'') ''ValuesMut''],
       Impl [Link ''trait'' (Some ''core::iter::iterator::Iterator'') ''Iterator'']
          [Link ''struct'' (Some ''std::collections::hash::map::Drain'') ''Drain''],
       Impl [Link ''trait'' (Some ''core::iter::iterator::Iterator'') ''Iterator'']
          [Link ''struct'' (Some ''std::collections::hash::set::Iter'') ''Iter''],
       Impl [Link ''trait'' (Some ''core::iter::iterator::Iterator'') ''Iterator'']
          [Link ''struct'' (Some ''std::collections::hash::set::IntoIter'') ''IntoIter''],
       Impl [Link ''trait'' (Some ''core::iter::iterator::Iterator'') ''Iterator'']
          [Link ''struct'' (Some ''std::collections::hash::set::Drain'') ''Drain''],
       Impl [Link ''trait'' (Some ''core::iter::iterator::Iterator'') ''Iterator'']
          [Link ''struct'' (Some ''std::collections::hash::set::Intersection'') ''Intersection'', Link ''trait'' (Some ''core::hash::BuildHasher'') ''BuildHasher'', Link ''trait'' (Some ''core::cmp::Eq'') ''Eq'', Link ''trait'' (Some ''core::hash::Hash'') ''Hash''],
       Impl [Link ''trait'' (Some ''core::iter::iterator::Iterator'') ''Iterator'']
          [Link ''struct'' (Some ''std::collections::hash::set::Difference'') ''Difference'', Link ''trait'' (Some ''core::hash::BuildHasher'') ''BuildHasher'', Link ''trait'' (Some ''core::cmp::Eq'') ''Eq'', Link ''trait'' (Some ''core::hash::Hash'') ''Hash''],
       Impl [Link ''trait'' (Some ''core::iter::iterator::Iterator'') ''Iterator'']
          [Link ''struct'' (Some ''std::collections::hash::set::SymmetricDifference'') ''SymmetricDifference'', Link ''trait'' (Some ''core::hash::BuildHasher'') ''BuildHasher'', Link ''trait'' (Some ''core::cmp::Eq'') ''Eq'', Link ''trait'' (Some ''core::hash::Hash'') ''Hash''],
       Impl [Link ''trait'' (Some ''core::iter::iterator::Iterator'') ''Iterator'']
          [Link ''struct'' (Some ''std::collections::hash::set::Union'') ''Union'', Link ''trait'' (Some ''core::hash::BuildHasher'') ''BuildHasher'', Link ''trait'' (Some ''core::cmp::Eq'') ''Eq'', Link ''trait'' (Some ''core::hash::Hash'') ''Hash''],
       Impl [Link ''trait'' (Some ''core::iter::iterator::Iterator'') ''Iterator'']
          [Link ''struct'' (Some ''collections::binary_heap::Iter'') ''Iter''],
       Impl [Link ''trait'' (Some ''core::iter::iterator::Iterator'') ''Iterator'']
          [Link ''struct'' (Some ''collections::binary_heap::IntoIter'') ''IntoIter''],
       Impl [Link ''trait'' (Some ''core::iter::iterator::Iterator'') ''Iterator'']
          [Link ''struct'' (Some ''collections::binary_heap::Drain'') ''Drain''],
       Impl [Link ''trait'' (Some ''core::iter::iterator::Iterator'') ''Iterator'']
          [Link ''struct'' (Some ''collections::vec_deque::Iter'') ''Iter''],
       Impl [Link ''trait'' (Some ''core::iter::iterator::Iterator'') ''Iterator'']
          [Link ''struct'' (Some ''collections::vec_deque::IterMut'') ''IterMut''],
       Impl [Link ''trait'' (Some ''core::iter::iterator::Iterator'') ''Iterator'']
          [Link ''struct'' (Some ''collections::vec_deque::IntoIter'') ''IntoIter''],
       Impl [Link ''trait'' (Some ''core::iter::iterator::Iterator'') ''Iterator'']
          [Link ''struct'' (Some ''collections::vec_deque::Drain'') ''Drain''],
       Impl [Link ''trait'' (Some ''core::iter::iterator::Iterator'') ''Iterator'']
          [Link ''struct'' (Some ''collections::linked_list::Iter'') ''Iter''],
       Impl [Link ''trait'' (Some ''core::iter::iterator::Iterator'') ''Iterator'']
          [Link ''struct'' (Some ''collections::linked_list::IterMut'') ''IterMut''],
       Impl [Link ''trait'' (Some ''core::iter::iterator::Iterator'') ''Iterator'']
          [Link ''struct'' (Some ''collections::linked_list::IntoIter'') ''IntoIter''],
       Impl [Link ''trait'' (Some ''core::iter::iterator::Iterator'') ''Iterator'']
          [Link ''struct'' (Some ''std::env::Vars'') ''Vars''],
       Impl [Link ''trait'' (Some ''core::iter::iterator::Iterator'') ''Iterator'']
          [Link ''struct'' (Some ''std::env::VarsOs'') ''VarsOs''],
       Impl [Link ''trait'' (Some ''core::iter::iterator::Iterator'') ''Iterator'']
          [Link ''struct'' (Some ''std::env::SplitPaths'') ''SplitPaths''],
       Impl [Link ''trait'' (Some ''core::iter::iterator::Iterator'') ''Iterator'']
          [Link ''struct'' (Some ''std::env::Args'') ''Args''],
       Impl [Link ''trait'' (Some ''core::iter::iterator::Iterator'') ''Iterator'']
          [Link ''struct'' (Some ''std::env::ArgsOs'') ''ArgsOs''],
       Impl [Link ''trait'' (Some ''core::iter::iterator::Iterator'') ''Iterator'']
          [Link ''struct'' (Some ''std::fs::ReadDir'') ''ReadDir''],
       Impl [Link ''trait'' (Some ''core::iter::iterator::Iterator'') ''Iterator'']
          [Link ''struct'' (Some ''std::io::Bytes'') ''Bytes'', Link ''trait'' (Some ''std::io::Read'') ''Read''],
       Impl [Link ''trait'' (Some ''core::iter::iterator::Iterator'') ''Iterator'']
          [Link ''struct'' (Some ''std::io::Chars'') ''Chars'', Link ''trait'' (Some ''std::io::Read'') ''Read''],
       Impl [Link ''trait'' (Some ''core::iter::iterator::Iterator'') ''Iterator'']
          [Link ''struct'' (Some ''std::io::Split'') ''Split'', Link ''trait'' (Some ''std::io::BufRead'') ''BufRead''],
       Impl [Link ''trait'' (Some ''core::iter::iterator::Iterator'') ''Iterator'']
          [Link ''struct'' (Some ''std::io::Lines'') ''Lines'', Link ''trait'' (Some ''std::io::BufRead'') ''BufRead''],
       Impl [Link ''trait'' (Some ''core::iter::iterator::Iterator'') ''Iterator'']
          [Link ''struct'' (Some ''std::net::tcp::Incoming'') ''Incoming''],
       Impl [Link ''trait'' (Some ''core::iter::iterator::Iterator'') ''Iterator'']
          [Link ''struct'' (Some ''std::net::LookupHost'') ''LookupHost''],
       Impl [Link ''trait'' (Some ''core::iter::iterator::Iterator'') ''Iterator'']
          [Link ''struct'' (Some ''std::sys::ext::net::Incoming'') ''Incoming''],
       Impl [Link ''trait'' (Some ''core::iter::iterator::Iterator'') ''Iterator'']
          [Link ''struct'' (Some ''std::path::Iter'') ''Iter''],
       Impl [Link ''trait'' (Some ''core::iter::iterator::Iterator'') ''Iterator'']
          [Link ''struct'' (Some ''std::path::Components'') ''Components''],
       Impl [Link ''trait'' (Some ''core::iter::iterator::Iterator'') ''Iterator'']
          [Link ''struct'' (Some ''std::sync::mpsc::Iter'') ''Iter''],
       Impl [Link ''trait'' (Some ''core::iter::iterator::Iterator'') ''Iterator'']
          [Link ''struct'' (Some ''std::sync::mpsc::IntoIter'') ''IntoIter''],
       Impl [Link ''trait'' (Some ''core::iter::iterator::Iterator'') ''Iterator'']
          [Link ''struct'' (Some ''rustc_unicode::char::ToLowercase'') ''ToLowercase''],
       Impl [Link ''trait'' (Some ''core::iter::iterator::Iterator'') ''Iterator'']
          [Link ''struct'' (Some ''rustc_unicode::char::ToUppercase'') ''ToUppercase''],
       Impl [Link ''trait'' (Some ''core::iter::iterator::Iterator'') ''Iterator'']
          [Link ''struct'' (Some ''rustc_unicode::char::DecodeUtf16'') ''DecodeUtf16'', Link ''trait'' (Some ''core::iter::iterator::Iterator'') ''Iterator'', Link ''primitive'' None ''u16''],
       Impl [Link ''trait'' (Some ''core::iter::iterator::Iterator'') ''Iterator'']
          [Link ''struct'' (Some ''alloc::boxed::Box'') ''Box'', Link ''trait'' (Some ''core::iter::iterator::Iterator'') ''Iterator'', Link ''trait'' (Some ''core::marker::Sized'') ''Sized''],
       Impl [Link ''trait'' (Some ''core::iter::iterator::Iterator'') ''Iterator'']
          [Link ''struct'' (Some ''collections::str::EncodeUtf16'') ''EncodeUtf16''],
       Impl [Link ''trait'' (Some ''core::iter::iterator::Iterator'') ''Iterator'']
          [Link ''struct'' (Some ''collections::string::Drain'') ''Drain''],
       Impl [Link ''trait'' (Some ''core::iter::iterator::Iterator'') ''Iterator'']
          [Link ''struct'' (Some ''collections::vec::IntoIter'') ''IntoIter''],
       Impl [Link ''trait'' (Some ''core::iter::iterator::Iterator'') ''Iterator'']
          [Link ''struct'' (Some ''collections::vec::Drain'') ''Drain''],
       Impl [Link ''trait'' (Some ''core::iter::iterator::Iterator'') ''Iterator'']
          [Link ''struct'' (Some ''openssl::x509::GeneralNamesIter'') ''GeneralNamesIter'']]),
    (''chrono'',
      [Impl [Link ''trait'' (Some ''core::iter::iterator::Iterator'') ''Iterator'']
          [Link ''struct'' (Some ''chrono::format::strftime::StrftimeItems'') ''StrftimeItems'']]),
    (''clap'',
      [Impl [Link ''trait'' (Some ''core::iter::iterator::Iterator'') ''Iterator'']
          [Link ''struct'' (Some ''clap::Values'') ''Values''],
       Impl [Link ''trait'' (Some ''core::iter::iterator::Iterator'') ''Iterator'']
          [Link ''struct'' (Some ''clap::OsValues'') ''OsValues'']]),
    (''hyper'',
      [Impl [Link ''trait'' (Some ''core::iter::iterator::Iterator'') ''Iterator'']
          [Link ''struct'' (Some ''url::host::SocketAddrs'') ''SocketAddrs''],
       Impl [Link ''trait'' (Some ''core::iter::iterator::Iterator'') ''Iterator'']
          [Link ''struct'' (Some ''url::form_urlencoded::Parse'') ''Parse''],
       Impl [Link ''trait'' (Some ''core::iter::iterator::Iterator'') ''Iterator'']
          [Link ''struct'' (Some ''url::form_urlencoded::ParseIntoOwned'') ''ParseIntoOwned''],
       Impl [Link ''trait'' (Some ''core::iter::iterator::Iterator'') ''Iterator'']
          [Link ''struct'' (Some ''url::form_urlencoded::ByteSerialize'') ''ByteSerialize''],
       Impl [Link ''trait'' (Some ''core::iter::iterator::Iterator'') ''Iterator'']
          [Link ''struct'' (Some ''url::percent_encoding::PercentEncode'') ''PercentEncode'', Link ''trait'' (Some ''url::percent_encoding::EncodeSet'') ''EncodeSet''],
       Impl [Link ''trait'' (Some ''core::iter::iterator::Iterator'') ''Iterator'']
          [Link ''struct'' (Some ''url::percent_encoding::PercentDecode'') ''PercentDecode''],
       Impl [Link ''trait'' (Some ''core::iter::iterator::Iterator'') ''Iterator'']
          [Link ''struct'' (Some ''hyper::header::HeadersItems'') ''HeadersItems''],
       Impl [Link ''trait'' (Some ''hyper::net::NetworkListener'') ''NetworkListener'', Link ''trait'' (Some ''core::iter::iterator::Iterator'') ''Iterator'']
          [Link ''struct'' (Some ''hyper::net::NetworkConnections'') ''NetworkConnections'']]),
    (''egg_mode'',
      [Impl [Link ''trait'' (Some ''core::iter::iterator::Iterator'') ''Iterator'']
          [Link ''struct'' (Some ''egg_mode::user::UserSearch'') ''UserSearch''],
       Impl [Link ''trait'' (Some ''core::iter::iterator::Iterator'') ''Iterator'']
          [Link ''struct'' (Some ''egg_mode::cursor::CursorIter'') ''CursorIter'', Link ''trait'' (Some ''egg_mode::cursor::Cursor'') ''Cursor'']])]\<close>

text \<open>
  The second script of the same file lists the implementors of
  \<^verbatim>\<open>core::ops::arith::Add\<close>.
\<close>

definition Add_implementors :: "(string \<times> impl_line list) list" where
  \<open>Add_implementors =
   [(''chrono'',
      [Impl [Link ''trait'' (Some ''trait core::ops::arith::Add'') ''Add'', Link ''struct'' (Some ''struct chrono::duration::Duration'') ''Duration'']
          [Link ''struct'' (Some ''struct chrono::naive::date::NaiveDate'') ''NaiveDate''],
       Impl [Link ''trait'' (Some ''trait core::ops::arith::Add'') ''Add'', Link ''struct'' (Some ''struct chrono::duration::Duration'') ''Duration'']
          [Link ''struct'' (Some ''struct chrono::naive::time::NaiveTime'') ''NaiveTime''],
       Impl [Link ''trait'' (Some ''trait core::ops::arith::Add'') ''Add'', Link ''struct'' (Some ''struct chrono::duration::Duration'') ''Duration'']
          [Link ''struct'' (Some ''struct chrono::naive::datetime::NaiveDateTime'') ''NaiveDateTime''],
       Impl [Link ''trait'' (Some ''trait chrono::offset::TimeZone'') ''TimeZone'', Link ''trait'' (Some ''trait core::ops::arith::Add'') ''Add'', Link ''struct'' (Some ''struct chrono::duration::Duration'') ''Duration'']
          [Link ''struct'' (Some ''struct chrono::date::Date'') ''Date''],
       Impl [Link ''trait'' (Some ''trait chrono::offset::TimeZone'') ''TimeZone'', Link ''trait'' (Some ''trait core::ops::arith::Add'') ''Add'', Link ''struct'' (Some ''struct chrono::duration::Duration'') ''Duration'']
          [Link ''struct'' (Some ''struct chrono::datetime::DateTime'') ''DateTime'']]),
    (''crypto'',
      [Impl [Link ''trait'' (Some ''trait core::ops::arith::Add'') ''Add'']
          [Link ''struct'' (Some ''struct crypto::curve25519::Fe'') ''Fe''],
       Impl [Link ''trait'' (Some ''trait core::ops::arith::Add'') ''Add'', Link ''struct'' (Some ''struct crypto::curve25519::GeCached'') ''GeCached'']
          [Link ''struct'' (Some ''struct crypto::curve25519::GeP3'') ''GeP3''],
       Impl [Link ''trait'' (Some ''trait core::ops::arith::Add'') ''Add'', Link ''struct'' (Some ''struct crypto::curve25519::GePrecomp'') ''GePrecomp'']
          [Link ''struct'' (Some ''struct crypto::curve25519::GeP3'') ''GeP3'']]),
    (''openssl'',
      [Impl [Link ''trait'' (Some ''trait core::ops::arith::Add'') ''Add'', Link ''struct'' (Some ''struct openssl::bn::BigNum'') ''BigNum'']
          [Link ''struct'' (Some ''struct openssl::bn::BigNum'') ''BigNum'']]),
    (''time'',
      [Impl [Link ''trait'' (Some ''trait core::ops::arith::Add'') ''Add'']
          [Link ''struct'' (Some ''struct time::Duration'') ''Duration''],
       Impl [Link ''trait'' (Some ''trait core::ops::arith::Add'') ''Add'', Link ''struct'' (Some ''struct time::Duration'') ''Duration'']
          [Link ''struct'' (Some ''struct time::Timespec'') ''Timespec''],
       Impl [Link ''trait'' (Some ''trait core::ops::arith::Add'') ''Add'', Link ''struct'' (Some ''struct time::Duration'') ''Duration'']
          [Link ''struct'' (Some ''struct time::SteadyTime'') ''SteadyTime''],
       Impl [Link ''trait'' (Some ''trait core::ops::arith::Add'') ''Add'', Link ''struct'' (Some ''struct time::Duration'') ''Duration'']
          [Link ''struct'' (Some ''struct time::Tm'') ''Tm'']])]\<close>

text \<open>
  \<^verbatim>\<open>implementors/rustc_serialize/serialize/trait.Encodable.js\<close>: the
  implementors of \<^verbatim>\<open>rustc_serialize::serialize::Encodable\<close>.
\<close>

definition Encodable_implementors :: "(string \<times> impl_line list) list" where
  \<open>Encodable_implementors =
   [(''chrono'',
      [Impl [Link ''trait'' (Some ''trait rustc_serialize::serialize::Encodable'') ''Encodable'']
          [Link ''struct'' (Some ''struct chrono::offset::utc::UTC'') ''UTC''],
       Impl [Link ''trait'' (Some ''trait rustc_serialize::serialize::Encodable'') ''Encodable'']
          [Link ''struct'' (Some ''struct chrono::offset::fixed::FixedOffset'') ''FixedOffset''],
       Impl [Link ''trait'' (Some ''trait rustc_serialize::serialize::Encodable'') ''Encodable'']
          [Link ''struct'' (Some ''struct chrono::offset::local::Local'') ''Local''],
       Impl [Link ''trait'' (Some ''trait rustc_serialize::serialize::Encodable'') ''Encodable'']
          [Link ''struct'' (Some ''struct chrono::naive::date::NaiveDate'') ''NaiveDate''],
       Impl [Link ''trait'' (Some ''trait rustc_serialize::serialize::Encodable'') ''Encodable'']
          [Link ''struct'' (Some ''struct chrono::naive::time::NaiveTime'') ''NaiveTime''],
       Impl [Link ''trait'' (Some ''trait rustc_serialize::serialize::Encodable'') ''Encodable'']
          [Link ''struct'' (Some ''struct chrono::naive::datetime::NaiveDateTime'') ''NaiveDateTime''],
       Impl [Link ''trait'' (Some ''trait chrono::offset::TimeZone'') ''TimeZone'', Link ''trait'' (Some ''trait rustc_serialize::serialize::Encodable'') ''Encodable'']
          [Link ''struct'' (Some ''struct chrono::date::Date'') ''Date'', Link ''type'' (Some ''type chrono::offset::TimeZone::Offset'') ''Offset'', Link ''trait'' (Some ''trait rustc_serialize::serialize::Encodable'') ''Encodable''],
       Impl [Link ''trait'' (Some ''trait chrono::offset::TimeZone'') ''TimeZone'', Link ''trait'' (Some ''trait rustc_serialize::serialize::Encodable'') ''Encodable'']
          [Link ''struct'' (Some ''struct chrono::datetime::DateTime'') ''DateTime'', Link ''type'' (Some ''type chrono::offset::TimeZone::Offset'') ''Offset'', Link ''trait'' (Some ''trait rustc_serialize::serialize::Encodable'') ''Encodable''],
       Impl [Link ''trait'' (Some ''trait rustc_serialize::serialize::Encodable'') ''Encodable'']
          [Link ''enum'' (Some ''enum chrono::Weekday'') ''Weekday'']]),
    (''egg_mode'',
      [Impl [Link ''trait'' (Some ''trait rustc_serialize::serialize::Encodable'') ''Encodable'']
          [Link ''struct'' (Some ''struct egg_mode::error::TwitterErrors'') ''TwitterErrors''],
       Impl [Link ''trait'' (Some ''trait rustc_serialize::serialize::Encodable'') ''Encodable'']
          [Link ''struct'' (Some ''struct egg_mode::error::TwitterErrorCode'') ''TwitterErrorCode'']]),
    (''toml'',
      [Impl [Link ''trait'' (Some ''trait rustc_serialize::serialize::Encodable'') ''Encodable'']
          [Link ''enum'' (Some ''enum toml::Value'') ''Value'']]),
    (''tweetr'',
      [Impl [Link ''trait'' (Some ''trait rustc_serialize::serialize::Encodable'') ''Encodable'']
          [Link ''struct'' (Some ''struct tweetr::ops::User'') ''User''],
       Impl [Link ''trait'' (Some ''trait rustc_serialize::serialize::Encodable'') ''Encodable'']
          [Link ''struct'' (Some ''struct tweetr::ops::AppTokens'') ''AppTokens''],
       Impl [Link ''trait'' (Some ''trait rustc_serialize::serialize::Encodable'') ''Encodable'']
          [Link ''struct'' (Some ''struct tweetr::ops::QueuedTweet'') ''QueuedTweet'']])]\<close>

section \<open>The source files\<close>

record source_file =
  path :: string
  scripts :: "script list"

definition source_files :: "source_file list" where
  "source_files =
     [\<lparr>path = ''implementors/core/iter/iterator/trait.Iterator.js'',
       scripts = [ImplementorsScript Iterator_implementors, ImplementorsScript Add_implementors]\<rparr>,
      \<lparr>path = ''implementors/rustc_serialize/serialize/trait.Encodable.js'',
       scripts = [ImplementorsScript Encodable_implementors]\<rparr>,
      \<lparr>path = ''tweetr/util/sidebar-items.js'',
       scripts = [SidebarScript sidebar_items]\<rparr>]"

definition all_scripts :: "script list" where
  "all_scripts = concat (map scripts source_files)"

section \<open>The items the artifacts refer to\<close>

fun starts_with :: "string \<Rightarrow> string \<Rightarrow> bool" where
  "starts_with s [] = True"
| "starts_with [] (p # ps) = False"
| "starts_with (c # cs) (p # ps) = (if c = p then starts_with cs ps else False)"


definition links_of :: "impl_line \<Rightarrow> link list" where
  "links_of l = before_for l @ after_for l"

text \<open>The implementing type of a line is the first link after the word \<^verbatim>\<open>for\<close>.\<close>

definition implementing_type :: "impl_line \<Rightarrow> link option" where
  "implementing_type l = (case after_for l of [] \<Rightarrow> None | x # xs \<Rightarrow> Some x)"

fun html_of :: "jsval \<Rightarrow> impl_line option" where
  "html_of (JHtml l) = Some l"
| "html_of v = None"

fun elems :: "jsval \<Rightarrow> jsval list" where
  "elems (JArr xs) = xs"
| "elems v = []"

fun table_lines :: "jsval \<Rightarrow> impl_line list" where
  "table_lines (JObj ps) = concat (map (\<lambda>(crate, v). List.map_filter html_of (elems v)) ps)"
| "table_lines v = []"

text \<open>
  A title is a path, \<^verbatim>\<open>chrono::naive::date::NaiveDate\<close>, in the newer scripts
  after the kind of the item, \<^verbatim>\<open>struct chrono::naive::date::NaiveDate\<close>. The
  crate is the first segment of the path.
\<close>

definition item_path :: "string \<Rightarrow> string" where
  "item_path t = (case dropWhile (\<lambda>c. c \<noteq> CHR '' '') t of [] \<Rightarrow> t | sp # p \<Rightarrow> p)"

definition crate_of :: "string \<Rightarrow> string" where
  "crate_of t = takeWhile (\<lambda>c. c \<noteq> CHR '':'') (item_path t)"

definition in_module :: "string \<Rightarrow> string \<Rightarrow> bool" where
  "in_module m t = starts_with (item_path t) (m @ ''::'')"

definition linked_titles :: "jsval \<Rightarrow> string list" where
  "linked_titles table = List.map_filter title (concat (map links_of (table_lines table)))"

definition implementing_titles :: "jsval \<Rightarrow> string list" where
  "implementing_titles table =
     List.map_filter title (List.map_filter implementing_type (table_lines table))"

text \<open>
  A sidebar index lies in the directory of the module it indexes:
  \<^verbatim>\<open>tweetr/util/sidebar-items.js\<close> indexes \<^verbatim>\<open>tweetr::util\<close>.
\<close>

fun split_on :: "char \<Rightarrow> string \<Rightarrow> string list" where
  "split_on sep [] = [[]]"
| "split_on sep (c # cs) =
     (if c = sep then [] # split_on sep cs
      else (case split_on sep cs of [] \<Rightarrow> [[c]] | w # ws \<Rightarrow> (c # w) # ws))"

fun join_with :: "string \<Rightarrow> string list \<Rightarrow> string" where
  "join_with sep [] = []"
| "join_with sep [x] = x"
| "join_with sep (x # y # zs) = x @ sep @ join_with sep (y # zs)"

definition module_of_path :: "string \<Rightarrow> string" where
  "module_of_path p = join_with ''::'' (butlast (split_on (CHR ''/'') p))"

text \<open>
  The items a script refers to: the titles of the links of an implementor table (a link to
  a primitive type has no title and names no item of a crate), and the items of a sidebar
  index under the module of the index.
\<close>

fun script_symbols :: "string \<Rightarrow> script \<Rightarrow> string list" where
  "script_symbols m (ImplementorsScript assignments) =
     linked_titles (implementors_table assignments)"
| "script_symbols m (SidebarScript index) =
     map (\<lambda>(name, description). m @ ''::'' @ name) (items index ''fn'' @ items index ''static'')"

definition symbols :: "source_file \<Rightarrow> string list" where
  "symbols f = concat (map (script_symbols (module_of_path (path f))) (scripts f))"

definition all_symbols :: "string list" where
  "all_symbols = concat (map symbols source_files)"

text \<open>
  The repository indexes the items of a module where it holds a sidebar index for it. The
  repository's own crates are the crates of the modules it indexes; an item of any other
  crate is third-party, referred to only by a link or a table row. The helper module is
  the indexed module.
\<close>

fun is_sidebar :: "script \<Rightarrow> bool" where
  "is_sidebar (SidebarScript index) = True"
| "is_sidebar (ImplementorsScript assignments) = False"

definition indexed_modules :: "string list" where
  "indexed_modules =
     map (\<lambda>f. module_of_path (path f)) (filter (\<lambda>f. list_ex is_sidebar (scripts f)) source_files)"

definition own_crates :: "string list" where
  "own_crates = map crate_of indexed_modules"

definition third_party :: "string \<Rightarrow> bool" where
  "third_party t = (crate_of t \<notin> set own_crates)"

definition in_helper_module :: "string \<Rightarrow> bool" where
  "in_helper_module t = list_ex (\<lambda>m. in_module m t) indexed_modules"

text \<open>The implementing types of all tables.\<close>

fun script_implementing :: "script \<Rightarrow> string list" where
  "script_implementing (ImplementorsScript assignments) =
     implementing_titles (implementors_table assignments)"
| "script_implementing (SidebarScript index) = []"

definition all_implementing :: "string list" where
  "all_implementing = concat (map script_implementing all_scripts)"

text \<open>Where an item of the crate \<^verbatim>\<open>tweetr\<close> may lie.\<close>

definition tweetr_origin :: "string \<Rightarrow> bool" where
  "tweetr_origin t =
     (if crate_of t = ''tweetr''
      then (if in_module ''tweetr::util'' t then True else in_module ''tweetr::ops'' t)
      else True)"

section \<open>What the descriptions of the sidebar index say\<close>









section \<open>Evaluation of the tables\<close>

lemma fn_items:
  \<open>items sidebar_items ''fn'' =
     [(''mul_str'', ''Create a string consisting of `n` repetitions of `what`.''),
      (''parse_relative_time'', ''Parse a relative datetime into a `Duration`.''),
      (''prompt_any_len'', ''Ask the user to input a string of any length after printing a prompt prompting.''),
      (''prompt_exact_len'', ''Ask the user to input a string of the exact length of `desired_len`, (re)prompting as necessary.''),
      (''prompt_multiline'', ''Ask the user to input a multiline string, (re)prompting as necessary.''),
      (''prompt_nonzero_len'', ''Ask the user to input a string of non-zero length, (re)prompting as necessary.''),
      (''span_r'', ''Runs a closure, returning the duration of time it took to run the closure and the closure\'s return value.'')]\<close>
  by (simp add: items_def sidebar_items_def List.map_filter_def)

lemma static_items:
  "items sidebar_items ''static'' =
     [(''TWEET_DATETIME_FORMAT'', ''The datetime format returned by Twitter when posting.'')]"
  by (simp add: items_def sidebar_items_def List.map_filter_def)

lemma sidebar_keys: "obj_keys sidebar_items = [''fn'', ''static'']"
  by (simp add: sidebar_items_def)



section \<open>Building the table\<close>

lemma obj_set_fresh: "k \<notin> fst ` set ps \<Longrightarrow> obj_set k v ps = ps @ [(k, v)]"
  by (induction ps) auto

lemma keys_obj_set: "fst ` set (obj_set k v ps) = insert k (fst ` set ps)"
proof (induction ps)
  case Nil
  show ?case by simp
next
  case (Cons p ps)
  obtain k' v' where p: "p = (k', v')" by (cases p)
  show ?case
  proof (cases "k = k'")
    case True
    then show ?thesis by (simp add: p)
  next
    case False
    then show ?thesis using Cons.IH by (simp add: p insert_commute)
  qed
qed

lemma keys_foldl_obj_set:
  "fst ` set (foldl (\<lambda>obj (crate, lines). obj_set crate (f lines) obj) ps a)
     = fst ` set ps \<union> fst ` set a"
proof (induction a arbitrary: ps)
  case Nil
  then show ?case by simp
next
  case (Cons x a)
  obtain c ls where x: "x = (c, ls)" by (cases x)
  show ?case
    using Cons.IH [of "obj_set c (f ls) ps"] by (simp add: x keys_obj_set)
qed

lemma keys_implementors_table: "set (obj_keys (implementors_table a)) = fst ` set a"
  unfolding implementors_table_def by (simp add: keys_foldl_obj_set)

lemma foldl_obj_set_distinct:
  "distinct (map fst a) \<Longrightarrow> fst ` set ps \<inter> fst ` set a = {} \<Longrightarrow>
   foldl (\<lambda>obj (crate, lines). obj_set crate (f lines) obj) ps a
     = ps @ map (\<lambda>(crate, lines). (crate, f lines)) a"
proof (induction a arbitrary: ps)
  case Nil
  then show ?case by simp
next
  case (Cons x a)
  obtain k ls where x: "x = (k, ls)" by (cases x)
  from Cons.prems have fresh: "k \<notin> fst ` set ps" by (auto simp: x)
  have "fst ` set (ps @ [(k, f ls)]) \<inter> fst ` set a = {}"
    using Cons.prems by (auto simp: x)
  moreover have "distinct (map fst a)" using Cons.prems by simp
  ultimately show ?case
    using Cons.IH [of "ps @ [(k, f ls)]"] by (simp add: x obj_set_fresh [OF fresh])
qed

lemma implementors_table_distinct:
  "distinct (map fst a) \<Longrightarrow>
   implementors_table a = JObj (map (\<lambda>(crate, lines). (crate, JArr (map JHtml lines))) a)"
  unfolding implementors_table_def
  using foldl_obj_set_distinct [of a "[]" "\<lambda>lines. JArr (map JHtml lines)"] by simp

lemma map_filter_html: "List.map_filter html_of (map JHtml ls) = ls"
  by (induction ls) (simp_all add: List.map_filter_simps)

lemma table_lines_distinct:
  assumes "distinct (map fst a)"
  shows "table_lines (implementors_table a) = concat (map snd a)"
proof -
  have "concat (map (\<lambda>(crate, v). List.map_filter html_of (elems v))
          (map (\<lambda>(crate, lines). (crate, JArr (map JHtml lines))) a)) = concat (map snd a)"
    by (induction a) (auto simp: map_filter_html)
  with assms show ?thesis
    by (simp add: implementors_table_distinct)
qed

lemma Iterator_keys:
  "map fst Iterator_implementors =
     [''vec_map'', ''lazy_static'', ''unicode_normalization'', ''num_iter'', ''libc'',
      ''rustc_serialize'', ''solicit'', ''url'', ''rand'', ''openssl'', ''chrono'', ''clap'',
      ''hyper'', ''egg_mode'']"
  by code_simp

lemma Add_keys: "map fst Add_implementors = [''chrono'', ''crypto'', ''openssl'', ''time'']"
  by code_simp

lemma Encodable_keys:
  "map fst Encodable_implementors = [''chrono'', ''egg_mode'', ''toml'', ''tweetr'']"
  by code_simp

section \<open>The origin of the items\<close>

lemma distinct_Iterator: "distinct (map fst Iterator_implementors)"
  unfolding Iterator_keys by simp

lemma distinct_Add: "distinct (map fst Add_implementors)"
  unfolding Add_keys by simp

lemma distinct_Encodable: "distinct (map fst Encodable_implementors)"
  unfolding Encodable_keys by simp

lemma indexed_modules_eval: "indexed_modules = [''tweetr::util'']"
  by code_simp

lemma own_crates_eval: "own_crates = [''tweetr'']"
  unfolding own_crates_def indexed_modules_eval by code_simp

lemma third_party_iff: "third_party t = (crate_of t \<noteq> ''tweetr'')"
  by (simp add: third_party_def own_crates_eval)

lemma in_helper_module_iff: "in_helper_module t = in_module ''tweetr::util'' t"
  by (simp add: in_helper_module_def indexed_modules_eval)

lemma tweetr_origin_iff:
  "tweetr_origin t = (third_party t \<or> in_helper_module t \<or> in_module ''tweetr::ops'' t)"
  by (simp add: tweetr_origin_def third_party_iff in_helper_module_iff)

lemma Iterator_origins:
  "list_all tweetr_origin
     (List.map_filter title (concat (map links_of (concat (map snd Iterator_implementors)))))"
  by code_simp

lemma Add_origins:
  "list_all tweetr_origin
     (List.map_filter title (concat (map links_of (concat (map snd Add_implementors)))))"
  by code_simp

lemma Encodable_origins:
  "list_all tweetr_origin
     (List.map_filter title (concat (map links_of (concat (map snd Encodable_implementors)))))"
  by code_simp

lemma sidebar_module: "module_of_path ''tweetr/util/sidebar-items.js'' = ''tweetr::util''"
  by code_simp

lemma sidebar_symbols:
  "script_symbols ''tweetr::util'' (SidebarScript sidebar_items) =
     [''tweetr::util::mul_str'', ''tweetr::util::parse_relative_time'',
      ''tweetr::util::prompt_any_len'', ''tweetr::util::prompt_exact_len'',
      ''tweetr::util::prompt_multiline'', ''tweetr::util::prompt_nonzero_len'',
      ''tweetr::util::span_r'', ''tweetr::util::TWEET_DATETIME_FORMAT'']"
  by (simp add: fn_items static_items)

lemma sidebar_origins:
  "list_all tweetr_origin (script_symbols ''tweetr::util'' (SidebarScript sidebar_items))"
  unfolding sidebar_symbols by code_simp

lemma all_symbols_eval:
  "all_symbols =
     List.map_filter title (concat (map links_of (concat (map snd Iterator_implementors))))
     @ List.map_filter title (concat (map links_of (concat (map snd Add_implementors))))
     @ List.map_filter title (concat (map links_of (concat (map snd Encodable_implementors))))
     @ script_symbols ''tweetr::util'' (SidebarScript sidebar_items)"
  by (simp add: all_symbols_def source_files_def symbols_def sidebar_module linked_titles_def
      table_lines_distinct distinct_Iterator distinct_Add distinct_Encodable
      del: script_symbols.simps(2))

lemma all_symbols_origins: "list_all tweetr_origin all_symbols"
  unfolding all_symbols_eval
  using Iterator_origins Add_origins Encodable_origins sidebar_origins by simp

lemma Iterator_tweetr:
  "filter (\<lambda>t. crate_of t = ''tweetr'')
     (List.map_filter title (List.map_filter implementing_type (concat (map snd Iterator_implementors))))
   = []"
  by code_simp

lemma Add_tweetr:
  "filter (\<lambda>t. crate_of t = ''tweetr'')
     (List.map_filter title (List.map_filter implementing_type (concat (map snd Add_implementors))))
   = []"
  by code_simp

lemma Encodable_tweetr:
  "filter (\<lambda>t. crate_of t = ''tweetr'')
     (List.map_filter title (List.map_filter implementing_type (concat (map snd Encodable_implementors))))
   = [''struct tweetr::ops::User'', ''struct tweetr::ops::AppTokens'',
      ''struct tweetr::ops::QueuedTweet'']"
  by code_simp

lemma all_implementing_tweetr:
  "filter (\<lambda>t. \<not> third_party t) all_implementing
   = [''struct tweetr::ops::User'', ''struct tweetr::ops::AppTokens'',
      ''struct tweetr::ops::QueuedTweet'']"
  using Iterator_tweetr Add_tweetr Encodable_tweetr
  by (simp add: third_party_iff all_implementing_def all_scripts_def source_files_def
      implementing_titles_def table_lines_distinct distinct_Iterator distinct_Add
      distinct_Encodable)

lemma user_origin:
  "crate_of ''struct tweetr::ops::User'' = ''tweetr''
   \<and> \<not> in_module ''tweetr::util'' ''struct tweetr::ops::User''
   \<and> in_module ''tweetr::ops'' ''struct tweetr::ops::User''"
  by code_simp

lemma user_in_symbols: "''struct tweetr::ops::User'' \<in> set all_symbols"
proof -
  have "''struct tweetr::ops::User'' \<in> set
     (List.map_filter title (concat (map links_of (concat (map snd Encodable_implementors)))))"
    by code_simp
  then show ?thesis unfolding all_symbols_eval by simp
qed

lemma user_in_implementing:
  "''struct tweetr::ops::User''
     \<in> set (implementing_titles (implementors_table Encodable_implementors))"
proof -
  have "''struct tweetr::ops::User'' \<in> set (filter (\<lambda>t. crate_of t = ''tweetr'')
     (List.map_filter title (List.map_filter implementing_type (concat (map snd Encodable_implementors)))))"
    unfolding Encodable_tweetr by simp
  then show ?thesis
    by (simp add: implementing_titles_def table_lines_distinct distinct_Encodable)
qed

section \<open>Running the scripts\<close>

lemma register_cases:
  "register t w =
     (if truthy (get_prop w ''register_implementors'') then
        (if callable (get_prop w ''register_implementors'')
         then [Call (get_prop w ''register_implementors'') [t]]
         else [Throw TypeError])
      else [Assign ''pending_implementors'' t])"
  by (simp add: register_def Let_def)

text \<open>
  Claim C3, as stated: for every two prior window states, running a script has the same
  effect. It fails: the Encodable script assigns in the empty window and calls in a window
  that defines \<^verbatim>\<open>register_implementors\<close>.
\<close>

theorem script_branches_on_window:
  "run (ImplementorsScript Encodable_implementors) Map.empty
     = [Assign ''pending_implementors'' (implementors_table Encodable_implementors)]
   \<and> run (ImplementorsScript Encodable_implementors)
         [''register_implementors'' \<mapsto> JFun ''register_implementors'']
     = [Call (JFun ''register_implementors'') [implementors_table Encodable_implementors]]
   \<and> run (ImplementorsScript Encodable_implementors) Map.empty
     \<noteq> run (ImplementorsScript Encodable_implementors)
         [''register_implementors'' \<mapsto> JFun ''register_implementors'']"
  by (simp add: register_cases get_prop_def)

text \<open>
  Claim C3, amended: the only control flow of a script is its test of one window
  property (the truthiness of \<^verbatim>\<open>window.register_implementors\<close> in an implementor
  script, the binding of \<^verbatim>\<open>initSidebarItems\<close> in the sidebar script); for every
  two prior window states that agree on the property the script reads, running the script
  has the same effect.
\<close>

theorem run_depends_on_reads_only:
  "(\<forall>k \<in> set (reads s). w1 k = w2 k) \<Longrightarrow> run s w1 = run s w2"
  by (cases s) (simp_all add: register_def get_prop_def)

text \<open>
  Witness for C3: two windows that bind \<^verbatim>\<open>initSidebarItems\<close> alike and differ
  elsewhere.
\<close>

theorem run_depends_on_reads_only_witness:
  "reads (SidebarScript sidebar_items) = [''initSidebarItems'']
   \<and> [''initSidebarItems'' \<mapsto> JFun ''initSidebarItems''] ''initSidebarItems''
     = [''initSidebarItems'' \<mapsto> JFun ''initSidebarItems'', ''pending_implementors'' \<mapsto> JNull]
         ''initSidebarItems''
   \<and> run (SidebarScript sidebar_items) [''initSidebarItems'' \<mapsto> JFun ''initSidebarItems'']
     = run (SidebarScript sidebar_items)
         [''initSidebarItems'' \<mapsto> JFun ''initSidebarItems'', ''pending_implementors'' \<mapsto> JNull]"
proof -
  have h: "\<forall>k \<in> set (reads (SidebarScript sidebar_items)).
      [''initSidebarItems'' \<mapsto> JFun ''initSidebarItems''] k
        = [''initSidebarItems'' \<mapsto> JFun ''initSidebarItems'', ''pending_implementors'' \<mapsto> JNull] k"
    by simp
  have "reads (SidebarScript sidebar_items) = [''initSidebarItems'']
   \<and> [''initSidebarItems'' \<mapsto> JFun ''initSidebarItems''] ''initSidebarItems''
     = [''initSidebarItems'' \<mapsto> JFun ''initSidebarItems'', ''pending_implementors'' \<mapsto> JNull]
         ''initSidebarItems''"
    by simp
  with run_depends_on_reads_only [OF h] show ?thesis by blast
qed

text \<open>
  Claim C8, as stated: if \<^verbatim>\<open>window.register_implementors\<close> is defined the script
  calls it. It fails where the property is defined and falsy: with the value
  \<^verbatim>\<open>false\<close> the script assigns the table and calls nothing.
\<close>

theorem defined_but_falsy_assigns:
  "get_prop [''register_implementors'' \<mapsto> JBool False] ''register_implementors'' \<noteq> JUndefined
   \<and> run (ImplementorsScript Encodable_implementors) [''register_implementors'' \<mapsto> JBool False]
     = [Assign ''pending_implementors'' (implementors_table Encodable_implementors)]"
  by (simp add: register_cases get_prop_def)

text \<open>
  Claim C8, amended: for every prior window state, running an implementor script does at
  most one of two things and never both. If \<^verbatim>\<open>window.register_implementors\<close>
  is truthy and a function, the script calls it exactly once with the table and assigns
  nothing, so that the script leaves the window as it was. If it is truthy and not a
  function, the call throws a TypeError and nothing is assigned. If it is falsy
  (undefined, null, false, 0, NaN or the empty string), the script assigns the table to
  \<^verbatim>\<open>window.pending_implementors\<close> and calls nothing.
\<close>

theorem register_or_pending:
  "(truthy (get_prop w ''register_implementors'')
      \<and> callable (get_prop w ''register_implementors'') \<longrightarrow>
        run (ImplementorsScript a) w
          = [Call (get_prop w ''register_implementors'') [implementors_table a]]
        \<and> run_script (ImplementorsScript a) w = w)
   \<and> (truthy (get_prop w ''register_implementors'')
      \<and> \<not> callable (get_prop w ''register_implementors'') \<longrightarrow>
        run (ImplementorsScript a) w = [Throw TypeError]
        \<and> run_script (ImplementorsScript a) w = w)
   \<and> (\<not> truthy (get_prop w ''register_implementors'') \<longrightarrow>
        run (ImplementorsScript a) w = [Assign ''pending_implementors'' (implementors_table a)]
        \<and> run_script (ImplementorsScript a) w
          = w(''pending_implementors'' \<mapsto> implementors_table a))"
  by (simp add: run_script_def register_cases)

text \<open>
  Witness for C8: the script of the implementors of \<^verbatim>\<open>Add\<close> in a window
  whose \<^verbatim>\<open>register_implementors\<close> is a function, in one where it is the
  number 1, and in the empty window.
\<close>

theorem register_or_pending_witness:
  "truthy (get_prop [''register_implementors'' \<mapsto> JFun ''register_implementors'']
        ''register_implementors'')
   \<and> callable (get_prop [''register_implementors'' \<mapsto> JFun ''register_implementors'']
        ''register_implementors'')
   \<and> run (ImplementorsScript Add_implementors)
        [''register_implementors'' \<mapsto> JFun ''register_implementors'']
       = [Call (JFun ''register_implementors'') [implementors_table Add_implementors]]
   \<and> run_script (ImplementorsScript Add_implementors)
        [''register_implementors'' \<mapsto> JFun ''register_implementors'']
       = [''register_implementors'' \<mapsto> JFun ''register_implementors'']
   \<and> truthy (get_prop [''register_implementors'' \<mapsto> JNum 1] ''register_implementors'')
   \<and> \<not> callable (get_prop [''register_implementors'' \<mapsto> JNum 1] ''register_implementors'')
   \<and> run (ImplementorsScript Add_implementors) [''register_implementors'' \<mapsto> JNum 1]
       = [Throw TypeError]
   \<and> \<not> truthy (get_prop Map.empty ''register_implementors'')
   \<and> run (ImplementorsScript Add_implementors) Map.empty
       = [Assign ''pending_implementors'' (implementors_table Add_implementors)]
   \<and> run_script (ImplementorsScript Add_implementors) Map.empty
       = [''pending_implementors'' \<mapsto> implementors_table Add_implementors]"
proof -
  let ?f = "[''register_implementors'' \<mapsto> JFun ''register_implementors'']"
  let ?n = "[''register_implementors'' \<mapsto> JNum 1]"
  have vf: "get_prop ?f ''register_implementors'' = JFun ''register_implementors''"
    by (simp add: get_prop_def)
  have vn: "get_prop ?n ''register_implementors'' = JNum 1"
    by (simp add: get_prop_def)
  have ve: "get_prop Map.empty ''register_implementors'' = JUndefined"
    by (simp add: get_prop_def)
  have hf: "truthy (get_prop ?f ''register_implementors'')
      \<and> callable (get_prop ?f ''register_implementors'')"
    by (simp add: vf)
  have hn: "truthy (get_prop ?n ''register_implementors'')
      \<and> \<not> callable (get_prop ?n ''register_implementors'')"
    by (simp add: vn)
  have he: "\<not> truthy (get_prop Map.empty ''register_implementors'')"
    by (simp add: ve)
  from register_or_pending [of ?f Add_implementors] hf
  have 1: "run (ImplementorsScript Add_implementors) ?f
          = [Call (get_prop ?f ''register_implementors'') [implementors_table Add_implementors]]
        \<and> run_script (ImplementorsScript Add_implementors) ?f = ?f"
    by blast
  from register_or_pending [of ?n Add_implementors] hn
  have 2: "run (ImplementorsScript Add_implementors) ?n = [Throw TypeError]"
    by blast
  from register_or_pending [of Map.empty Add_implementors] he
  have 3: "run (ImplementorsScript Add_implementors) Map.empty
          = [Assign ''pending_implementors'' (implementors_table Add_implementors)]
        \<and> run_script (ImplementorsScript Add_implementors) Map.empty
          = [''pending_implementors'' \<mapsto> implementors_table Add_implementors]"
    by blast
  from 1 have c: "run (ImplementorsScript Add_implementors) ?f
          = [Call (JFun ''register_implementors'') [implementors_table Add_implementors]]
        \<and> run_script (ImplementorsScript Add_implementors) ?f = ?f"
    by (simp only: vf)
  from hf hn he c 2 3 show ?thesis by blast
qed

text \<open>
  Claim C9. When \<^verbatim>\<open>window.register_implementors\<close> is undefined, running an
  implementor script replaces \<^verbatim>\<open>window.pending_implementors\<close> by the table of
  the script and changes nothing else of the window. A table left pending by a script run
  before is overwritten, not merged: after the second script the pending table is the
  second script's, its own keys are the crates the second script assigns, and a crate
  that only the first script assigned, an own key of the pending table after the first
  script, is no longer one.
\<close>

theorem pending_is_overwritten:
  assumes "get_prop w ''register_implementors'' = JUndefined"
  shows "run_script (ImplementorsScript a) w = w(''pending_implementors'' \<mapsto> implementors_table a)
    \<and> run_script (ImplementorsScript b) (run_script (ImplementorsScript a) w)
        = w(''pending_implementors'' \<mapsto> implementors_table b)
    \<and> set (obj_keys (get_prop (run_script (ImplementorsScript a) w) ''pending_implementors''))
        = fst ` set a
    \<and> set (obj_keys (get_prop (run_script (ImplementorsScript b)
          (run_script (ImplementorsScript a) w)) ''pending_implementors''))
        = fst ` set b
    \<and> (\<forall>crate \<in> fst ` set a. crate \<notin> fst ` set b \<longrightarrow>
          crate \<notin> set (obj_keys (get_prop (run_script (ImplementorsScript b)
                     (run_script (ImplementorsScript a) w)) ''pending_implementors'')))"
proof -
  have first: "run_script (ImplementorsScript a) w
      = w(''pending_implementors'' \<mapsto> implementors_table a)"
    using assms by (simp add: run_script_def register_cases)
  have still: "get_prop (w(''pending_implementors'' \<mapsto> implementors_table a))
      ''register_implementors'' = JUndefined"
    using assms by (simp add: get_prop_def)
  have second: "run_script (ImplementorsScript b) (run_script (ImplementorsScript a) w)
      = w(''pending_implementors'' \<mapsto> implementors_table b)"
    unfolding first using still by (simp add: run_script_def register_cases)
  have pending: "get_prop (w(''pending_implementors'' \<mapsto> t)) ''pending_implementors'' = t" for t
    by (simp add: get_prop_def)
  from first second show ?thesis
    by (simp add: pending keys_implementors_table)
qed

text \<open>
  Witness for C9: in the empty window the Iterator script, then the Encodable script; the
  crate \<^verbatim>\<open>vec_map\<close>, assigned by the first and not by the second, is lost.
\<close>

theorem pending_is_overwritten_witness:
  "get_prop Map.empty ''register_implementors'' = JUndefined
   \<and> ''vec_map'' \<in> set (obj_keys (get_prop
        (run_script (ImplementorsScript Iterator_implementors) Map.empty)
        ''pending_implementors''))
   \<and> run_script (ImplementorsScript Encodable_implementors)
        (run_script (ImplementorsScript Iterator_implementors) Map.empty)
       = [''pending_implementors'' \<mapsto> implementors_table Encodable_implementors]
   \<and> ''vec_map'' \<notin> set (obj_keys (get_prop
        (run_script (ImplementorsScript Encodable_implementors)
          (run_script (ImplementorsScript Iterator_implementors) Map.empty))
        ''pending_implementors''))"
proof -
  have h: "get_prop Map.empty ''register_implementors'' = JUndefined"
    by (simp add: get_prop_def)
  have "set (map fst Encodable_implementors) = set [''chrono'', ''egg_mode'', ''toml'', ''tweetr'']"
    by (simp only: Encodable_keys)
  then have k: "''vec_map'' \<notin> fst ` set Encodable_implementors"
    by simp
  have "''vec_map'' \<in> set (map fst Iterator_implementors)"
    unfolding Iterator_keys by simp
  then have i: "''vec_map'' \<in> fst ` set Iterator_implementors"
    by simp
  note t = pending_is_overwritten [OF h, of Iterator_implementors Encodable_implementors]
  from t have 1: "set (obj_keys (get_prop
        (run_script (ImplementorsScript Iterator_implementors) Map.empty)
        ''pending_implementors'')) = fst ` set Iterator_implementors" by blast
  from t have 2: "run_script (ImplementorsScript Encodable_implementors)
        (run_script (ImplementorsScript Iterator_implementors) Map.empty)
       = [''pending_implementors'' \<mapsto> implementors_table Encodable_implementors]" by blast
  from t have "\<forall>crate \<in> fst ` set Iterator_implementors.
      crate \<notin> fst ` set Encodable_implementors \<longrightarrow>
        crate \<notin> set (obj_keys (get_prop (run_script (ImplementorsScript Encodable_implementors)
          (run_script (ImplementorsScript Iterator_implementors) Map.empty))
          ''pending_implementors''))" by blast
  from bspec [OF this i] k have 3: "''vec_map'' \<notin> set (obj_keys (get_prop
        (run_script (ImplementorsScript Encodable_implementors)
          (run_script (ImplementorsScript Iterator_implementors) Map.empty))
        ''pending_implementors''))" by blast
  from i 1 have 4: "''vec_map'' \<in> set (obj_keys (get_prop
        (run_script (ImplementorsScript Iterator_implementors) Map.empty)
        ''pending_implementors''))" by blast
  from h 2 3 4 show ?thesis by blast
qed

section \<open>The sidebar index\<close>

text \<open>
  Claim C10. The index object handed to \<^verbatim>\<open>initSidebarItems\<close> has exactly the
  two keys \<^verbatim>\<open>fn\<close> and \<^verbatim>\<open>static\<close>; it declares seven functions
  and exactly one static item, \<^verbatim>\<open>TWEET_DATETIME_FORMAT\<close>, described as the
  datetime format returned by Twitter when posting.
\<close>

theorem sidebar_index_contents:
  "obj_keys sidebar_items = [''fn'', ''static'']
   \<and> map fst (items sidebar_items ''fn'') =
       [''mul_str'', ''parse_relative_time'', ''prompt_any_len'', ''prompt_exact_len'',
        ''prompt_multiline'', ''prompt_nonzero_len'', ''span_r'']
   \<and> length (items sidebar_items ''fn'') = 7
   \<and> length (elems (obj_get sidebar_items ''fn'')) = 7
   \<and> elems (obj_get sidebar_items ''static'') =
       [JArr [JStr ''TWEET_DATETIME_FORMAT'',
              JStr ''The datetime format returned by Twitter when posting.'']]
   \<and> items sidebar_items ''static'' =
       [(''TWEET_DATETIME_FORMAT'', ''The datetime format returned by Twitter when posting.'')]"
  by (simp add: sidebar_keys fn_items static_items) (simp add: sidebar_items_def)

text \<open>
  Claim C6, as stated: the index declares only functions and no static data item. It
  fails: the list under the key \<^verbatim>\<open>static\<close> is not empty.
\<close>

theorem sidebar_static_not_empty:
  "items sidebar_items ''static'' \<noteq> []"
  by (simp add: static_items)

text \<open>
  Claim C6, amended: the index declares seven functions and exactly one static data item,
  \<^verbatim>\<open>TWEET_DATETIME_FORMAT\<close>, and items of no other kind.
\<close>

theorem sidebar_functions_and_one_static:
  "obj_keys sidebar_items = [''fn'', ''static'']
   \<and> length (items sidebar_items ''fn'') = 7
   \<and> map fst (items sidebar_items ''static'') = [''TWEET_DATETIME_FORMAT'']"
  by (simp add: sidebar_keys fn_items static_items)




section \<open>The artifacts and the items they refer to\<close>

text \<open>
  Claim C2, as stated: every implementing type of the implementor tables is from an
  external crate or from the helper module. It fails:
  \<^verbatim>\<open>tweetr::ops::User\<close>, an implementing type of the Encodable table, is of
  the crate \<^verbatim>\<open>tweetr\<close> and not of the module \<^verbatim>\<open>tweetr::util\<close>.
\<close>

theorem implementing_type_outside_helper_module:
  "''struct tweetr::ops::User''
     \<in> set (implementing_titles (implementors_table Encodable_implementors))
   \<and> \<not> third_party ''struct tweetr::ops::User''
   \<and> \<not> in_helper_module ''struct tweetr::ops::User''"
  using user_in_implementing user_origin
  by (simp add: third_party_iff in_helper_module_iff)

text \<open>
  Claim C2, amended: every item the artifacts refer to belongs to a third-party crate, to
  the helper module \<^verbatim>\<open>tweetr::util\<close> or to the module
  \<^verbatim>\<open>tweetr::ops\<close>; the implementing types of the tables that are not
  third-party are the three types \<^verbatim>\<open>User\<close>, \<^verbatim>\<open>AppTokens\<close> and
  \<^verbatim>\<open>QueuedTweet\<close> of \<^verbatim>\<open>tweetr::ops\<close>.
\<close>

theorem items_third_party_or_tweetr:
  "(\<forall>t \<in> set all_symbols.
      third_party t \<or> in_helper_module t \<or> in_module ''tweetr::ops'' t)
   \<and> filter (\<lambda>t. \<not> third_party t) all_implementing
       = [''struct tweetr::ops::User'', ''struct tweetr::ops::AppTokens'',
          ''struct tweetr::ops::QueuedTweet'']"
  using all_symbols_origins all_implementing_tweetr
  by (simp add: list_all_iff tweetr_origin_iff)

text \<open>
  Witness for C2: \<^verbatim>\<open>tweetr::ops::User\<close> is referred to, is neither
  third-party nor of the helper module, and lies in \<^verbatim>\<open>tweetr::ops\<close>.
\<close>

theorem items_third_party_or_tweetr_witness:
  "''struct tweetr::ops::User'' \<in> set all_symbols
   \<and> \<not> third_party ''struct tweetr::ops::User''
   \<and> \<not> in_helper_module ''struct tweetr::ops::User''
   \<and> in_module ''tweetr::ops'' ''struct tweetr::ops::User''"
proof -
  have n: "\<not> third_party ''struct tweetr::ops::User''
      \<and> \<not> in_helper_module ''struct tweetr::ops::User''"
    using user_origin by (simp add: third_party_iff in_helper_module_iff)
  from items_third_party_or_tweetr have
    "\<forall>t \<in> set all_symbols. third_party t \<or> in_helper_module t \<or> in_module ''tweetr::ops'' t" ..
  from bspec [OF this user_in_symbols] n user_in_symbols show ?thesis by blast
qed



end
